theory Spec2Isabelle
  imports Complex_Main
begin

section \<open>JavaScript values\<close>

text \<open>
  A JavaScript \<^verbatim>\<open>number\<close> is a finite double, one of the two infinities, or NaN.
  Finite doubles are idealised as real numbers: addition and division are exact, so
  rounding and overflow of the arithmetic mean are not part of this model. Every
  comparison with NaN is false, as in the language.
\<close>

datatype number = Fin real | PosInf | NegInf | NaN

text \<open>
  A property read at run time yields either a number or \<^verbatim>\<open>undefined\<close> (an index past
  the end of an array, an optional field that was never set).
\<close>

datatype "value" = Undefined | Number number

text \<open>\<^verbatim>\<open>ToNumber\<close>: \<^verbatim>\<open>undefined\<close> becomes NaN wherever arithmetic or a comparison reads it.\<close>

fun toNumber :: "value \<Rightarrow> number" where
  "toNumber Undefined = NaN"
| "toNumber (Number n) = n"

text \<open>The operator \<^verbatim>\<open>+\<close> on numbers.\<close>

fun js_add :: "number \<Rightarrow> number \<Rightarrow> number" where
  "js_add (Fin a) (Fin b) = Fin (a + b)"
| "js_add NaN y = NaN"
| "js_add x NaN = NaN"
| "js_add PosInf NegInf = NaN"
| "js_add NegInf PosInf = NaN"
| "js_add PosInf y = PosInf"
| "js_add x PosInf = PosInf"
| "js_add NegInf y = NegInf"
| "js_add x NegInf = NegInf"

text \<open>
  The operator \<^verbatim>\<open>/\<close> where the divisor is an array length (a non-negative integer,
  never \<open>-0\<close>). \<open>0 / 0\<close> is NaN; a non-zero finite number over \<open>0\<close> is an infinity.
\<close>

fun js_div :: "number \<Rightarrow> nat \<Rightarrow> number" where
  "js_div (Fin a) n =
     (if n = 0 then (if a = 0 then NaN else if 0 < a then PosInf else NegInf)
      else Fin (a / real n))"
| "js_div PosInf n = PosInf"
| "js_div NegInf n = NegInf"
| "js_div NaN n = NaN"

text \<open>The relational operators, with a numeric literal on the right-hand side.\<close>

fun js_lt :: "number \<Rightarrow> real \<Rightarrow> bool" where
  "js_lt (Fin a) c = (a < c)"
| "js_lt NegInf c = True"
| "js_lt PosInf c = False"
| "js_lt NaN c = False"

fun js_le :: "number \<Rightarrow> real \<Rightarrow> bool" where
  "js_le (Fin a) c = (a \<le> c)"
| "js_le NegInf c = True"
| "js_le PosInf c = False"
| "js_le NaN c = False"

fun js_gt :: "number \<Rightarrow> real \<Rightarrow> bool" where
  "js_gt (Fin a) c = (c < a)"
| "js_gt PosInf c = True"
| "js_gt NegInf c = False"
| "js_gt NaN c = False"

fun js_ge :: "number \<Rightarrow> real \<Rightarrow> bool" where
  "js_ge (Fin a) c = (c \<le> a)"
| "js_ge PosInf c = True"
| "js_ge NegInf c = False"
| "js_ge NaN c = False"

text \<open>The nullish coalescing operator \<^verbatim>\<open>v ?? d\<close>.\<close>

fun nullish :: "value \<Rightarrow> value \<Rightarrow> value" where
  "nullish Undefined d = d"
| "nullish (Number n) d = Number n"

text \<open>
  Reason strings are assembled from literal text and numbers rendered by
  \<^verbatim>\<open>toFixed\<close>. The rendering itself is kept symbolic: \<open>ToFixed x d\<close> stands for
  \<^verbatim>\<open>x.toFixed(d)\<close>. The degree sign and the em dash of the source are written
  \<open>deg\<close> and \<open>--\<close>.
\<close>

datatype piece = Lit string | ToFixed number nat

type_synonym message = "piece list"

fun join :: "string \<Rightarrow> message list \<Rightarrow> message" where
  "join sep [] = []"
| "join sep [r] = r"
| "join sep (r # rs) = r @ [Lit sep] @ join sep rs"

section \<open>Types (types.ts)\<close>

text \<open>
  Field names that occur in more than one interface carry a prefix here. The
  \<^verbatim>\<open>waveHeight\<close> field is never written or read and is left out. A required numeric field
  has static type \<^verbatim>\<open>number\<close>, but holds \<^verbatim>\<open>undefined\<close> at run time when the normalizer
  read it past the end of a provider array, so it is a \<^typ>\<open>value\<close>.
\<close>

record City =
  city_id :: number
  city_name :: string
  country :: string
  countryCode :: string
  latitude :: number
  longitude :: number
  city_timezone :: string
  population :: "value"
  admin1 :: "string option"

record HourlyWeather =
  time :: string
  temperature2m :: "value"
  windspeed10m :: "value"
  precipitation :: "value"
  weathercode :: "value"
  snowDepth :: "value"

record DailyWeather =
  date :: string
  temperatureMax :: "value"
  temperatureMin :: "value"
  precipitationSum :: "value"
  windspeedMax :: "value"
  daily_weathercode :: "value"

record WeatherForecast =
  city :: City
  current :: HourlyWeather
  hourly :: "HourlyWeather list"
  daily :: "DailyWeather list"
  timezone :: string

datatype ActivityType = SKIING | SURFING | INDOOR_SIGHTSEEING | OUTDOOR_SIGHTSEEING

text \<open>
  The \<^verbatim>\<open>score\<close> variable of every scorer starts at an integer literal and only ever
  has integer literals added or subtracted, so it is an \<^typ>\<open>int\<close>.
\<close>

record Activity =
  type :: ActivityType
  name :: string
  score :: int
  suitable :: bool
  reason :: message

section \<open>ActivityService\<close>

text \<open>\<^verbatim>\<open>average\<close>: \<open>0\<close> for an empty array, else the left-to-right sum over the length.\<close>

definition average :: "value list \<Rightarrow> number" where
  "average values =
     (if length values = 0 then Fin 0
      else js_div (foldl (\<lambda>sum v. js_add sum (toNumber v)) (Fin 0) values) (length values))"

text \<open>The clear-hour count shared by two scorers: \<^verbatim>\<open>hours.filter(h => h.weathercode <= 3).length\<close>.\<close>

definition clearHours :: "HourlyWeather list \<Rightarrow> nat" where
  "clearHours hours = length (filter (\<lambda>h. js_le (toNumber (weathercode h)) 3) hours)"

definition scoreSkiing :: "HourlyWeather list \<Rightarrow> Activity" where
  "scoreSkiing hours =
     (let avgTemp = average (map temperature2m hours);
          avgWind = average (map windspeed10m hours);
          avgSnow = average (map (\<lambda>h. nullish (snowDepth h) (Number (Fin 0))) hours);
          totalPrecip = average (map precipitation hours);
          (score, reasons) = (0, []);
          (score, reasons) =
            (if js_ge avgTemp (- 20) \<and> js_le avgTemp 2
             then (score + (if js_le avgTemp (- 2) then 35 else 20),
                   reasons @ [[Lit ''temperature '', ToFixed avgTemp 1, Lit ''degC is '',
                               Lit (if js_le avgTemp (- 2) then ''ideal'' else ''marginal''),
                               Lit '' for snow'']])
             else (score,
                   reasons @ [[Lit ''temperature '', ToFixed avgTemp 1, Lit ''degC is too '',
                               Lit (if js_gt avgTemp 2 then ''warm'' else ''extreme''),
                               Lit '' for skiing'']]));
          (score, reasons) =
            (if js_ge avgSnow 30
             then (score + 40,
                   reasons @ [[Lit ''good snow depth ('', ToFixed avgSnow 0, Lit '' cm)'']])
             else if js_ge avgSnow 10
             then (score + 20,
                   reasons @ [[Lit ''moderate snow depth ('', ToFixed avgSnow 0, Lit '' cm)'']])
             else (score, reasons @ [[Lit ''insufficient snow depth'']]));
          (score, reasons) =
            (if js_gt avgWind 60
             then (max 0 (score - 30),
                   reasons @ [[Lit ''high winds ('', ToFixed avgWind 0,
                               Lit '' km/h) are dangerous'']])
             else if js_le avgWind 30
             then (score + 15, reasons @ [[Lit ''calm winds'']])
             else (score, reasons));
          (score, reasons) =
            (if js_gt totalPrecip 0 \<and> js_le totalPrecip 2 \<and> js_lt avgTemp 0
             then (score + 10, reasons @ [[Lit ''light snowfall expected (fresh powder)'']])
             else (score, reasons));
          score = min 100 (max 0 score)
      in \<lparr> type = SKIING, name = ''Skiing'', score = score, suitable = (60 \<le> score),
           reason = join ''; '' reasons \<rparr>)"

text \<open>
  In \<open>scoreSurfing\<close> the clear ratio is \<^verbatim>\<open>clearHours / hours.length\<close>, with no guard
  on the length.
\<close>

definition surfingClearRatio :: "HourlyWeather list \<Rightarrow> number" where
  "surfingClearRatio hours = js_div (Fin (real (clearHours hours))) (length hours)"

definition scoreSurfing :: "HourlyWeather list \<Rightarrow> Activity" where
  "scoreSurfing hours =
     (let avgTemp = average (map temperature2m hours);
          avgWind = average (map windspeed10m hours);
          avgPrecip = average (map precipitation hours);
          (score, reasons) = (0, []);
          (score, reasons) =
            (if js_ge avgTemp 18 \<and> js_le avgTemp 32
             then (score + 30,
                   reasons @ [[Lit ''comfortable air temperature ('', ToFixed avgTemp 1,
                               Lit ''degC)'']])
             else if js_ge avgTemp 12
             then (score + 15,
                   reasons @ [[Lit ''cool but manageable temperature ('', ToFixed avgTemp 1,
                               Lit ''degC)'']])
             else (score,
                   reasons @ [[Lit ''cold temperature ('', ToFixed avgTemp 1,
                               Lit ''degC) makes surfing uncomfortable'']]));
          (score, reasons) =
            (if js_ge avgWind 10 \<and> js_le avgWind 30
             then (score + 40,
                   reasons @ [[Lit ''ideal wind speed ('', ToFixed avgWind 0,
                               Lit '' km/h) for waves'']])
             else if js_gt avgWind 30 \<and> js_le avgWind 50
             then (score + 15,
                   reasons @ [[Lit ''strong winds ('', ToFixed avgWind 0,
                               Lit '' km/h) -- experienced surfers only'']])
             else if js_lt avgWind 10
             then (score + 20,
                   reasons @ [[Lit ''light winds ('', ToFixed avgWind 0,
                               Lit '' km/h) -- flat water likely'']])
             else (max 0 (score - 20),
                   reasons @ [[Lit ''dangerous winds ('', ToFixed avgWind 0, Lit '' km/h)'']]));
          (score, reasons) =
            (if js_lt avgPrecip 1
             then (score + 20, reasons @ [[Lit ''dry conditions'']])
             else if js_lt avgPrecip 5
             then (score + 10, reasons @ [[Lit ''light rain expected'']])
             else (score - 10, reasons @ [[Lit ''heavy rain expected'']]));
          (score, reasons) =
            (if js_ge (surfingClearRatio hours) (6 / 10)
             then (score + 10, reasons @ [[Lit ''mostly clear skies'']])
             else (score, reasons));
          score = min 100 (max 0 score)
      in \<lparr> type = SURFING, name = ''Surfing'', score = score, suitable = (60 \<le> score),
           reason = join ''; '' reasons \<rparr>)"

definition scoreIndoorSightseeing :: "HourlyWeather list \<Rightarrow> Activity" where
  "scoreIndoorSightseeing hours =
     (let avgPrecip = average (map precipitation hours);
          avgTemp = average (map temperature2m hours);
          avgWind = average (map windspeed10m hours);
          (score, reasons) = (50, []);
          (score, reasons) =
            (if js_ge avgPrecip 5
             then (score + 30,
                   reasons @ [[Lit ''heavy rain ('', ToFixed avgPrecip 1,
                               Lit '' mm/h) makes indoors appealing'']])
             else if js_ge avgPrecip 2
             then (score + 15, reasons @ [[Lit ''moderate rain expected'']])
             else (score, reasons));
          (score, reasons) =
            (if js_lt avgTemp 0
             then (score + 20,
                   reasons @ [[Lit ''freezing temperatures ('', ToFixed avgTemp 1,
                               Lit ''degC) favour indoor activities'']])
             else if js_gt avgTemp 35
             then (score + 15,
                   reasons @ [[Lit ''extreme heat ('', ToFixed avgTemp 1,
                               Lit ''degC) -- air-conditioned venues recommended'']])
             else (score, reasons));
          (score, reasons) =
            (if js_gt avgWind 60
             then (score + 15, reasons @ [[Lit ''strong winds make outdoor activities unsafe'']])
             else (score, reasons));
          (score, reasons) =
            (if js_lt avgPrecip 1 \<and> js_ge avgTemp 18 \<and> js_le avgTemp 28 \<and> js_lt avgWind 20
             then (score - 15,
                   reasons @ [[Lit ''beautiful outdoor conditions -- consider going outside!'']])
             else (score, reasons));
          reasons =
            (if length reasons = 0
             then reasons @
               [[Lit ''moderate conditions -- both indoor and outdoor activities viable'']]
             else reasons);
          score = min 100 (max 0 score)
      in \<lparr> type = INDOOR_SIGHTSEEING, name = ''Indoor Sightseeing'', score = score,
           suitable = (60 \<le> score), reason = join ''; '' reasons \<rparr>)"

text \<open>
  In \<open>scoreOutdoorSightseeing\<close> the clear ratio is
  \<^verbatim>\<open>clearHours / Math.max(hours.length, 1)\<close>.
\<close>

definition clearRatio :: "HourlyWeather list \<Rightarrow> number" where
  "clearRatio hours = js_div (Fin (real (clearHours hours))) (max (length hours) 1)"

definition scoreOutdoorSightseeing :: "HourlyWeather list \<Rightarrow> Activity" where
  "scoreOutdoorSightseeing hours =
     (let avgTemp = average (map temperature2m hours);
          avgWind = average (map windspeed10m hours);
          avgPrecip = average (map precipitation hours);
          (score, reasons) = (0, []);
          (score, reasons) =
            (if js_ge avgTemp 15 \<and> js_le avgTemp 28
             then (score + 35,
                   reasons @ [[Lit ''pleasant temperature ('', ToFixed avgTemp 1, Lit ''degC)'']])
             else if js_ge avgTemp 5 \<and> js_lt avgTemp 15
             then (score + 20,
                   reasons @ [[Lit ''cool but walkable ('', ToFixed avgTemp 1,
                               Lit ''degC) -- bring a jacket'']])
             else if js_gt avgTemp 28 \<and> js_le avgTemp 35
             then (score + 15,
                   reasons @ [[Lit ''warm ('', ToFixed avgTemp 1, Lit ''degC) -- stay hydrated'']])
             else (score,
                   reasons @ [[Lit ''temperature ('', ToFixed avgTemp 1,
                               Lit ''degC) is not ideal for outdoor sightseeing'']]));
          (score, reasons) =
            (if js_ge (clearRatio hours) (7 / 10)
             then (score + 30, reasons @ [[Lit ''mostly clear skies'']])
             else if js_ge (clearRatio hours) (4 / 10)
             then (score + 15, reasons @ [[Lit ''partly cloudy'']])
             else (score, reasons @ [[Lit ''overcast conditions'']]));
          (score, reasons) =
            (if js_lt avgPrecip (5 / 10)
             then (score + 25, reasons @ [[Lit ''dry conditions'']])
             else if js_lt avgPrecip 2
             then (score + 10, reasons @ [[Lit ''light rain possible -- bring an umbrella'']])
             else (score - 15,
                   reasons @ [[Lit ''rain expected ('', ToFixed avgPrecip 1, Lit '' mm/h)'']]));
          (score, reasons) =
            (if js_gt avgWind 50
             then (score - 20,
                   reasons @ [[Lit ''strong winds ('', ToFixed avgWind 0, Lit '' km/h)'']])
             else if js_lt avgWind 20
             then (score + 10, reasons @ [[Lit ''calm winds'']])
             else (score, reasons));
          score = min 100 (max 0 score)
      in \<lparr> type = OUTDOOR_SIGHTSEEING, name = ''Outdoor Sightseeing'', score = score,
           suitable = (60 \<le> score), reason = join ''; '' reasons \<rparr>)"

text \<open>
  \<^verbatim>\<open>Array.prototype.sort\<close> with a comparator. The language requires the sort to be
  stable, and for a consistent comparator the stable result is unique; it is computed
  here by insertion, placing an element before the first one it does not compare
  greater than.
\<close>

fun insertBy :: "('a \<Rightarrow> 'a \<Rightarrow> int) \<Rightarrow> 'a \<Rightarrow> 'a list \<Rightarrow> 'a list" where
  "insertBy cmp x [] = [x]"
| "insertBy cmp x (y # ys) = (if cmp x y \<le> 0 then x # y # ys else y # insertBy cmp x ys)"

definition array_sort :: "('a \<Rightarrow> 'a \<Rightarrow> int) \<Rightarrow> 'a list \<Rightarrow> 'a list" where
  "array_sort cmp xs = foldr (insertBy cmp) xs []"

text \<open>\<^verbatim>\<open>hourly.slice(0, 24)\<close> is \<open>take 24\<close>.\<close>

definition rankActivities :: "WeatherForecast \<Rightarrow> Activity list" where
  "rankActivities forecast =
     (let next24h = take 24 (hourly forecast);
          activities = [scoreSkiing next24h, scoreSurfing next24h,
                        scoreIndoorSightseeing next24h, scoreOutdoorSightseeing next24h]
      in array_sort (\<lambda>a b. score b - score a) activities)"

section \<open>WeatherService\<close>

text \<open>
  The provider payload (\<^verbatim>\<open>OpenMeteoForecastResponse\<close>). Its nested objects reuse field
  names, so the fields of \<^verbatim>\<open>current\<close>, \<^verbatim>\<open>hourly\<close> and \<^verbatim>\<open>daily\<close> carry the prefixes
  \<open>cur_\<close>, \<open>hr_\<close> and \<open>dy_\<close>. The coordinates and the unit tables are never read by the
  normalizer and are left out. A nested object or an array field that the payload lacks
  is \<open>None\<close>; a number that it lacks is \<open>Undefined\<close>. The strings (the time stamps and the
  time zone) are copied without being read.
\<close>

record OpenMeteoCurrent =
  cur_time :: string
  cur_temperature_2m :: "value"
  cur_windspeed_10m :: "value"
  cur_precipitation :: "value"
  cur_weathercode :: "value"

record OpenMeteoHourly =
  hr_time :: "string list option"
  hr_temperature_2m :: "number list option"
  hr_windspeed_10m :: "number list option"
  hr_precipitation :: "number list option"
  hr_weathercode :: "number list option"
  hr_snow_depth :: "number list option"

record OpenMeteoDaily =
  dy_time :: "string list option"
  dy_temperature_2m_max :: "number list option"
  dy_temperature_2m_min :: "number list option"
  dy_precipitation_sum :: "number list option"
  dy_windspeed_10m_max :: "number list option"
  dy_weathercode :: "number list option"

record OpenMeteoForecastResponse =
  raw_timezone :: string
  raw_current :: "OpenMeteoCurrent option"
  raw_hourly :: "OpenMeteoHourly option"
  raw_daily :: "OpenMeteoDaily option"

text \<open>
  The only exception the normalizer can raise is the language's own \<^verbatim>\<open>TypeError\<close>, on
  reading a property of \<^verbatim>\<open>undefined\<close>. \<open>DataShapeError\<close> is the error kind of the
  specification; no path of the source constructs it.
\<close>

datatype error = TypeError | DataShapeError

definition andThen :: "error + 'a \<Rightarrow> ('a \<Rightarrow> error + 'b) \<Rightarrow> error + 'b" where
  "andThen r k = (case r of Inl e \<Rightarrow> Inl e | Inr x \<Rightarrow> k x)"

text \<open>
  Reading a property of a nested object (\<^verbatim>\<open>raw.current.time\<close>, \<^verbatim>\<open>raw.hourly.time\<close>): a
  \<^verbatim>\<open>TypeError\<close> when the object is \<^verbatim>\<open>undefined\<close>.
\<close>

fun deref :: "'a option \<Rightarrow> error + 'a" where
  "deref None = Inl TypeError"
| "deref (Some obj) = Inr obj"

text \<open>
  \<^verbatim>\<open>arr[i]\<close>: a \<^verbatim>\<open>TypeError\<close> when \<^verbatim>\<open>arr\<close> is \<^verbatim>\<open>undefined\<close>, the element when the index
  is in range, and \<^verbatim>\<open>undefined\<close> past the end.
\<close>

fun index :: "number list option \<Rightarrow> nat \<Rightarrow> error + value" where
  "index None i = Inl TypeError"
| "index (Some xs) i = Inr (if i < length xs then Number (xs ! i) else Undefined)"

text \<open>\<^verbatim>\<open>arr?.[i]\<close>: as \<open>index\<close>, but \<^verbatim>\<open>undefined\<close> when \<^verbatim>\<open>arr\<close> is \<^verbatim>\<open>undefined\<close>.\<close>

fun optIndex :: "number list option \<Rightarrow> nat \<Rightarrow> value" where
  "optIndex None i = Undefined"
| "optIndex (Some xs) i = (if i < length xs then Number (xs ! i) else Undefined)"

text \<open>
  \<^verbatim>\<open>arr.map((x, i) => ...)\<close> with a callback that may raise: a \<^verbatim>\<open>TypeError\<close> when
  \<^verbatim>\<open>arr\<close> is \<^verbatim>\<open>undefined\<close>; otherwise the elements are visited in order with their
  index, and the first exception ends the call.
\<close>

fun mapFrom :: "('a \<Rightarrow> nat \<Rightarrow> error + 'b) \<Rightarrow> 'a list \<Rightarrow> nat \<Rightarrow> error + 'b list" where
  "mapFrom f [] i = Inr []"
| "mapFrom f (x # xs) i =
     andThen (f x i) (\<lambda>y. andThen (mapFrom f xs (Suc i)) (\<lambda>ys. Inr (y # ys)))"

definition array_map :: "('a \<Rightarrow> nat \<Rightarrow> error + 'b) \<Rightarrow> 'a list option \<Rightarrow> error + 'b list" where
  "array_map f arr = (case arr of None \<Rightarrow> Inl TypeError | Some xs \<Rightarrow> mapFrom f xs 0)"

text \<open>
  The callback of the hourly map (lines 33--40), applied to a time stamp and its index.
  The fields are read in the order of the object literal.
\<close>

definition hourlyAt :: "OpenMeteoHourly \<Rightarrow> string \<Rightarrow> nat \<Rightarrow> error + HourlyWeather" where
  "hourlyAt hr time' i =
     andThen (index (hr_temperature_2m hr) i) (\<lambda>t.
     andThen (index (hr_windspeed_10m hr) i) (\<lambda>w.
     andThen (index (hr_precipitation hr) i) (\<lambda>p.
     andThen (index (hr_weathercode hr) i) (\<lambda>wc.
       Inr \<lparr> time = time', temperature2m = t, windspeed10m = w, precipitation = p,
             weathercode = wc, snowDepth = optIndex (hr_snow_depth hr) i \<rparr>))))"

text \<open>The callback of the daily map (lines 42--49).\<close>

definition dailyAt :: "OpenMeteoDaily \<Rightarrow> string \<Rightarrow> nat \<Rightarrow> error + DailyWeather" where
  "dailyAt dy date' i =
     andThen (index (dy_temperature_2m_max dy) i) (\<lambda>tmax.
     andThen (index (dy_temperature_2m_min dy) i) (\<lambda>tmin.
     andThen (index (dy_precipitation_sum dy) i) (\<lambda>ps.
     andThen (index (dy_windspeed_10m_max dy) i) (\<lambda>wm.
     andThen (index (dy_weathercode dy) i) (\<lambda>wc.
       Inr \<lparr> date = date', temperatureMax = tmax, temperatureMin = tmin,
             precipitationSum = ps, windspeedMax = wm, daily_weathercode = wc \<rparr>)))))"

text \<open>
  \<open>mapToForecast\<close> builds the current snapshot first (reading \<^verbatim>\<open>raw.current\<close>), then maps
  over \<^verbatim>\<open>raw.hourly.time\<close>, then over \<^verbatim>\<open>raw.daily.time\<close>.
\<close>

definition mapToForecast :: "City \<Rightarrow> OpenMeteoForecastResponse \<Rightarrow> error + WeatherForecast" where
  "mapToForecast c raw =
     andThen (deref (raw_current raw)) (\<lambda>cur.
       (let current' =
              \<lparr> time = cur_time cur, temperature2m = cur_temperature_2m cur,
                windspeed10m = cur_windspeed_10m cur, precipitation = cur_precipitation cur,
                weathercode = cur_weathercode cur, snowDepth = Undefined \<rparr>
        in andThen (deref (raw_hourly raw)) (\<lambda>hr.
           andThen (array_map (hourlyAt hr) (hr_time hr)) (\<lambda>hourly'.
           andThen (deref (raw_daily raw)) (\<lambda>dy.
           andThen (array_map (dailyAt dy) (dy_time dy)) (\<lambda>daily'.
             Inr \<lparr> city = c, current = current', hourly = hourly', daily = daily',
                   timezone = raw_timezone raw \<rparr>))))))"

text \<open>
  The payloads on which the normalizer reads a property of \<^verbatim>\<open>undefined\<close>: a nested
  object is missing, a time array is missing, or a time array has an entry while one of
  the arrays indexed in its callback is missing. The optional \<^verbatim>\<open>snow_depth\<close> is not among
  them, and the lengths of the arrays play no part.
\<close>

definition hourlyIncomplete :: "OpenMeteoHourly \<Rightarrow> bool" where
  "hourlyIncomplete hr =
     (case hr_time hr of
        None \<Rightarrow> True
      | Some [] \<Rightarrow> False
      | Some (t # ts) \<Rightarrow>
          hr_temperature_2m hr = None \<or> hr_windspeed_10m hr = None \<or>
          hr_precipitation hr = None \<or> hr_weathercode hr = None)"

definition dailyIncomplete :: "OpenMeteoDaily \<Rightarrow> bool" where
  "dailyIncomplete dy =
     (case dy_time dy of
        None \<Rightarrow> True
      | Some [] \<Rightarrow> False
      | Some (d # ds) \<Rightarrow>
          dy_temperature_2m_max dy = None \<or> dy_temperature_2m_min dy = None \<or>
          dy_precipitation_sum dy = None \<or> dy_windspeed_10m_max dy = None \<or>
          dy_weathercode dy = None)"

definition readsUndefined :: "OpenMeteoForecastResponse \<Rightarrow> bool" where
  "readsUndefined raw =
     (case raw_current raw of
        None \<Rightarrow> True
      | Some cur \<Rightarrow>
          (case raw_hourly raw of
             None \<Rightarrow> True
           | Some hr \<Rightarrow>
               hourlyIncomplete hr \<or>
               (case raw_daily raw of None \<Rightarrow> True | Some dy \<Rightarrow> dailyIncomplete dy)))"

section \<open>Concrete inputs\<close>

text \<open>An hour with the given temperature, wind speed, precipitation, weather code and snow depth.\<close>

definition hourOf :: "real \<Rightarrow> real \<Rightarrow> real \<Rightarrow> real \<Rightarrow> value \<Rightarrow> HourlyWeather" where
  "hourOf t w p wc s =
     \<lparr> time = ''2026-01-01T00:00'', temperature2m = Number (Fin t),
       windspeed10m = Number (Fin w), precipitation = Number (Fin p),
       weathercode = Number (Fin wc), snowDepth = s \<rparr>"

definition capeTown :: City where
  "capeTown =
     \<lparr> city_id = Fin 1, city_name = ''Cape Town'', country = ''South Africa'',
       countryCode = ''ZA'', latitude = Fin (- 339258 / 10000), longitude = Fin (184232 / 10000),
       city_timezone = ''Africa/Johannesburg'', population = Undefined, admin1 = None \<rparr>"

definition innsbruck :: City where
  "innsbruck =
     \<lparr> city_id = Fin 2, city_name = ''Innsbruck'', country = ''Austria'',
       countryCode = ''AT'', latitude = Fin (472692 / 10000), longitude = Fin (114041 / 10000),
       city_timezone = ''Europe/Vienna'', population = Number (Fin 132493),
       admin1 = Some ''Tyrol'' \<rparr>"

text \<open>
  The payload of the normalizer's unit test, with the second temperature dropped: two
  hourly time stamps, one hourly temperature.
\<close>

definition mismatchedPayload :: OpenMeteoForecastResponse where
  "mismatchedPayload =
     \<lparr> raw_timezone = ''Africa/Johannesburg'',
       raw_current = Some
         \<lparr> cur_time = ''2026-02-11T14:00'', cur_temperature_2m = Number (Fin (245 / 10)),
           cur_windspeed_10m = Number (Fin (182 / 10)), cur_precipitation = Number (Fin 0),
           cur_weathercode = Number (Fin 1) \<rparr>,
       raw_hourly = Some
         \<lparr> hr_time = Some [''2026-02-11T00:00'', ''2026-02-11T01:00''],
           hr_temperature_2m = Some [Fin (221 / 10)],
           hr_windspeed_10m = Some [Fin 15, Fin (165 / 10)],
           hr_precipitation = Some [Fin 0, Fin 0],
           hr_weathercode = Some [Fin 1, Fin 1],
           hr_snow_depth = Some [Fin 0, Fin 0] \<rparr>,
       raw_daily = Some
         \<lparr> dy_time = Some [''2026-02-11'', ''2026-02-12''],
           dy_temperature_2m_max = Some [Fin 26, Fin (255 / 10)],
           dy_temperature_2m_min = Some [Fin 18, Fin (175 / 10)],
           dy_precipitation_sum = Some [Fin 0, Fin (12 / 10)],
           dy_windspeed_10m_max = Some [Fin 22, Fin 28],
           dy_weathercode = Some [Fin 1, Fin 3] \<rparr> \<rparr>"

text \<open>The same payload without its \<^verbatim>\<open>current\<close> object.\<close>

definition noCurrentPayload :: OpenMeteoForecastResponse where
  "noCurrentPayload = mismatchedPayload \<lparr> raw_current := None \<rparr>"

text \<open>The payload of the unit test without its hourly \<^verbatim>\<open>temperature_2m\<close> array.\<close>

definition noTemperaturePayload :: OpenMeteoForecastResponse where
  "noTemperaturePayload =
     \<lparr> raw_timezone = ''Africa/Johannesburg'',
       raw_current = Some
         \<lparr> cur_time = ''2026-02-11T14:00'', cur_temperature_2m = Number (Fin (245 / 10)),
           cur_windspeed_10m = Number (Fin (182 / 10)), cur_precipitation = Number (Fin 0),
           cur_weathercode = Number (Fin 1) \<rparr>,
       raw_hourly = Some
         \<lparr> hr_time = Some [''2026-02-11T00:00'', ''2026-02-11T01:00''],
           hr_temperature_2m = None,
           hr_windspeed_10m = Some [Fin 15, Fin (165 / 10)],
           hr_precipitation = Some [Fin 0, Fin 0],
           hr_weathercode = Some [Fin 1, Fin 1],
           hr_snow_depth = Some [Fin 0, Fin 0] \<rparr>,
       raw_daily = Some
         \<lparr> dy_time = Some [''2026-02-11'', ''2026-02-12''],
           dy_temperature_2m_max = Some [Fin 26, Fin (255 / 10)],
           dy_temperature_2m_min = Some [Fin 18, Fin (175 / 10)],
           dy_precipitation_sum = Some [Fin 0, Fin (12 / 10)],
           dy_windspeed_10m_max = Some [Fin 22, Fin 28],
           dy_weathercode = Some [Fin 1, Fin 3] \<rparr> \<rparr>"

text \<open>
  A payload for two hours of ideal skiing weather in which the provider reports a snow
  depth of 50 cm as 0.5 (metres).
\<close>

definition skiPayload :: OpenMeteoForecastResponse where
  "skiPayload =
     \<lparr> raw_timezone = ''Europe/Vienna'',
       raw_current = Some
         \<lparr> cur_time = ''2026-01-01T00:00'', cur_temperature_2m = Number (Fin (- 8)),
           cur_windspeed_10m = Number (Fin 20), cur_precipitation = Number (Fin (1 / 2)),
           cur_weathercode = Number (Fin 71) \<rparr>,
       raw_hourly = Some
         \<lparr> hr_time = Some [''2026-01-01T00:00'', ''2026-01-01T01:00''],
           hr_temperature_2m = Some [Fin (- 8), Fin (- 8)],
           hr_windspeed_10m = Some [Fin 20, Fin 20],
           hr_precipitation = Some [Fin (1 / 2), Fin (1 / 2)],
           hr_weathercode = Some [Fin 71, Fin 71],
           hr_snow_depth = Some [Fin (1 / 2), Fin (1 / 2)] \<rparr>,
       raw_daily = Some
         \<lparr> dy_time = Some [''2026-01-01''],
           dy_temperature_2m_max = Some [Fin (- 5)],
           dy_temperature_2m_min = Some [Fin (- 11)],
           dy_precipitation_sum = Some [Fin 12],
           dy_windspeed_10m_max = Some [Fin 25],
           dy_weathercode = Some [Fin 71] \<rparr> \<rparr>"

text \<open>A forecast with no hourly records.\<close>

definition emptyForecast :: WeatherForecast where
  "emptyForecast =
     \<lparr> city = capeTown, current = hourOf 20 15 0 1 (Number (Fin 0)), hourly = [], daily = [],
       timezone = ''UTC'' \<rparr>"

text \<open>
  Two forecasts that agree on their first 24 hours and differ in everything else: the
  city, the current snapshot, the daily records, the time zone and the hours from
  index 24 on.
\<close>

definition forecastA :: WeatherForecast where
  "forecastA =
     \<lparr> city = capeTown, current = hourOf 20 15 0 1 (Number (Fin 0)),
       hourly = replicate 24 (hourOf 22 10 0 1 Undefined) @ [hourOf 30 5 0 0 Undefined],
       daily = [],
       timezone = ''Africa/Johannesburg'' \<rparr>"

definition forecastB :: WeatherForecast where
  "forecastB =
     \<lparr> city = innsbruck, current = hourOf (- 5) 40 2 71 (Number (Fin 1)),
       hourly = replicate 24 (hourOf 22 10 0 1 Undefined) @
                [hourOf (- 9) 70 8 75 (Number (Fin 2)), hourOf (- 10) 75 9 75 (Number (Fin 2))],
       daily = [\<lparr> date = ''2026-01-01'', temperatureMax = Number (Fin (- 2)),
                  temperatureMin = Number (Fin (- 11)), precipitationSum = Number (Fin 14),
                  windspeedMax = Number (Fin 80), daily_weathercode = Number (Fin 75) \<rparr>],
       timezone = ''Europe/Vienna'' \<rparr>"

section \<open>Facts about the language model\<close>

lemma js_lt_not_ge: "js_lt x a \<Longrightarrow> a \<le> b \<Longrightarrow> \<not> js_ge x b"
  by (cases x) auto

lemma js_lt_not_gt: "js_lt x a \<Longrightarrow> a \<le> b \<Longrightarrow> \<not> js_gt x b"
  by (cases x) auto

lemma js_le_not_gt: "js_le x a \<Longrightarrow> a \<le> b \<Longrightarrow> \<not> js_gt x b"
  by (cases x) auto

lemma js_ge_not_lt: "js_ge x a \<Longrightarrow> b \<le> a \<Longrightarrow> \<not> js_lt x b"
  by (cases x) auto

lemma average_Nil: "average [] = Fin 0"
  by (simp add: average_def)

lemma foldl_add_replicate:
  "foldl (\<lambda>sum v. js_add sum (toNumber v)) (Fin s) (replicate n (Number (Fin c)))
   = Fin (s + real n * c)"
  by (induction n arbitrary: s) (simp_all add: algebra_simps)

lemma average_replicate: "0 < n \<Longrightarrow> average (replicate n (Number (Fin c))) = Fin c"
  by (simp add: average_def foldl_add_replicate)

lemma andThen_Inl: "andThen (Inl e) k = Inl e"
  by (simp add: andThen_def)

lemma andThen_Inr: "andThen (Inr x) k = k x"
  by (simp add: andThen_def)

text \<open>The comparator of \<open>rankActivities\<close> makes \<open>array_sort\<close> the library's stable key sort.\<close>

lemma insertBy_insort_key:
  fixes f :: "'a \<Rightarrow> int"
  shows "insertBy (\<lambda>a b. f b - f a) x ys = insort_key (\<lambda>a. - f a) x ys"
  by (induction ys) auto

lemma array_sort_sort_key:
  fixes f :: "'a \<Rightarrow> int"
  shows "array_sort (\<lambda>a b. f b - f a) xs = sort_key (\<lambda>a. - f a) xs"
  unfolding array_sort_def sort_key_def
  by (induction xs) (simp_all add: insertBy_insort_key)

section \<open>The four scorers\<close>

text \<open>
  Each scorer ends in the same record: its own identifier, the clamped score and the
  flag computed from the clamped score. The intermediate pairs are named one by one
  (\<open>prod.split\<close>) and the branches are left unsplit.
\<close>

lemma scoreSkiing_type: "type (scoreSkiing hours) = SKIING"
  by (simp add: scoreSkiing_def Let_def split del: if_split split: prod.split)

lemma scoreSurfing_type: "type (scoreSurfing hours) = SURFING"
  by (simp add: scoreSurfing_def Let_def split del: if_split split: prod.split)

lemma scoreIndoorSightseeing_type: "type (scoreIndoorSightseeing hours) = INDOOR_SIGHTSEEING"
  by (simp add: scoreIndoorSightseeing_def Let_def split del: if_split split: prod.split)

lemma scoreOutdoorSightseeing_type:
  "type (scoreOutdoorSightseeing hours) = OUTDOOR_SIGHTSEEING"
  by (simp add: scoreOutdoorSightseeing_def Let_def split del: if_split split: prod.split)

lemmas score_types =
  scoreSkiing_type scoreSurfing_type scoreIndoorSightseeing_type scoreOutdoorSightseeing_type

lemma scoreSkiing_range:
  "0 \<le> score (scoreSkiing hours) \<and> score (scoreSkiing hours) \<le> 100 \<and>
   suitable (scoreSkiing hours) = (60 \<le> score (scoreSkiing hours))"
  by (simp add: scoreSkiing_def Let_def split del: if_split split: prod.split)

lemma scoreSurfing_range:
  "0 \<le> score (scoreSurfing hours) \<and> score (scoreSurfing hours) \<le> 100 \<and>
   suitable (scoreSurfing hours) = (60 \<le> score (scoreSurfing hours))"
  by (simp add: scoreSurfing_def Let_def split del: if_split split: prod.split)

lemma scoreIndoorSightseeing_range:
  "0 \<le> score (scoreIndoorSightseeing hours) \<and> score (scoreIndoorSightseeing hours) \<le> 100 \<and>
   suitable (scoreIndoorSightseeing hours) = (60 \<le> score (scoreIndoorSightseeing hours))"
  by (simp add: scoreIndoorSightseeing_def Let_def split del: if_split split: prod.split)

lemma scoreOutdoorSightseeing_range:
  "0 \<le> score (scoreOutdoorSightseeing hours) \<and> score (scoreOutdoorSightseeing hours) \<le> 100 \<and>
   suitable (scoreOutdoorSightseeing hours) = (60 \<le> score (scoreOutdoorSightseeing hours))"
  by (simp add: scoreOutdoorSightseeing_def Let_def split del: if_split split: prod.split)

lemmas score_ranges =
  scoreSkiing_range scoreSurfing_range scoreIndoorSightseeing_range scoreOutdoorSightseeing_range

section \<open>Ranking\<close>

lemma rank_sort_key:
  "rankActivities f =
   sort_key (\<lambda>a. - score a)
     [scoreSkiing (take 24 (hourly f)), scoreSurfing (take 24 (hourly f)),
      scoreIndoorSightseeing (take 24 (hourly f)), scoreOutdoorSightseeing (take 24 (hourly f))]"
  by (simp add: rankActivities_def Let_def array_sort_sort_key)

lemma rank_set:
  "set (rankActivities f) =
   {scoreSkiing (take 24 (hourly f)), scoreSurfing (take 24 (hourly f)),
    scoreIndoorSightseeing (take 24 (hourly f)), scoreOutdoorSightseeing (take 24 (hourly f))}"
proof -
  have "set (rankActivities f) =
        set [scoreSkiing (take 24 (hourly f)), scoreSurfing (take 24 (hourly f)),
             scoreIndoorSightseeing (take 24 (hourly f)),
             scoreOutdoorSightseeing (take 24 (hourly f))]"
    unfolding rank_sort_key by (rule set_sort)
  then show ?thesis
    by simp
qed

lemma rank_length: "length (rankActivities f) = 4"
proof -
  have "length (rankActivities f) =
        length [scoreSkiing (take 24 (hourly f)), scoreSurfing (take 24 (hourly f)),
                scoreIndoorSightseeing (take 24 (hourly f)),
                scoreOutdoorSightseeing (take 24 (hourly f))]"
    unfolding rank_sort_key by (rule length_sort)
  then show ?thesis
    by simp
qed

text \<open>
  C2. For every forecast, the empty hourly sequence included, \<open>rankActivities\<close> returns a
  list (no path of it raises) of exactly four entries whose identifiers are pairwise
  distinct and are SKIING, SURFING, INDOOR_SIGHTSEEING and OUTDOOR_SIGHTSEEING.
\<close>

theorem rankActivities_four_types:
  "length (rankActivities f) = 4 \<and> distinct (map type (rankActivities f)) \<and>
   set (map type (rankActivities f)) = {SKIING, SURFING, INDOOR_SIGHTSEEING, OUTDOOR_SIGHTSEEING}"
proof -
  have s: "set (map type (rankActivities f)) =
             {SKIING, SURFING, INDOOR_SIGHTSEEING, OUTDOOR_SIGHTSEEING}"
    by (simp add: rank_set score_types)
  have "card (set (map type (rankActivities f))) = length (map type (rankActivities f))"
    unfolding s by (simp add: rank_length)
  then have "distinct (map type (rankActivities f))"
    by (rule card_distinct)
  with s rank_length show ?thesis
    by simp
qed

text \<open>
  C3. For every forecast, every entry returned by \<open>rankActivities\<close> has an integer score
  between 0 and 100, and its \<open>suitable\<close> flag is true exactly when the score is at least
  60.
\<close>

theorem rankActivities_score_range:
  "list_all (\<lambda>a. 0 \<le> score a \<and> score a \<le> 100 \<and> suitable a = (60 \<le> score a))
     (rankActivities f)"
  unfolding list_all_iff rank_set
  by (simp add: score_ranges)

text \<open>
  C4. For every forecast the result of \<open>rankActivities\<close> is sorted by score, descending
  and non-strict, and the sort is stable over the evaluation order skiing, surfing,
  indoor, outdoor: for every score \<open>k\<close>, the entries with score \<open>k\<close> appear in the result
  in the order in which they were evaluated. The result is a function of the input.
\<close>

theorem rankActivities_sorted_stable:
  "sorted_wrt (\<lambda>a b. score b \<le> score a) (rankActivities f) \<and>
   (\<forall>k. filter (\<lambda>a. score a = k) (rankActivities f) =
        filter (\<lambda>a. score a = k)
          [scoreSkiing (take 24 (hourly f)), scoreSurfing (take 24 (hourly f)),
           scoreIndoorSightseeing (take 24 (hourly f)),
           scoreOutdoorSightseeing (take 24 (hourly f))])"
proof -
  let ?xs = "[scoreSkiing (take 24 (hourly f)), scoreSurfing (take 24 (hourly f)),
              scoreIndoorSightseeing (take 24 (hourly f)),
              scoreOutdoorSightseeing (take 24 (hourly f))]"
  have "sorted (map (\<lambda>a. - score a) (rankActivities f))"
    unfolding rank_sort_key by (rule sorted_sort_key)
  then have s: "sorted_wrt (\<lambda>a b. score b \<le> score a) (rankActivities f)"
    by (simp add: sorted_map)
  have "filter (\<lambda>a. - score a = - k) (rankActivities f) = filter (\<lambda>a. - score a = - k) ?xs"
    for k
    unfolding rank_sort_key by (rule sort_key_stable)
  then show ?thesis
    using s by simp
qed

text \<open>
  C9. Two forecasts whose hourly sequences agree on their first 24 entries (or on all
  of them, when there are fewer) are ranked identically, whatever their current
  snapshots, daily records, cities, time zones and later hours are.
\<close>

theorem rankActivities_window_only:
  "take 24 (hourly f) = take 24 (hourly g) \<Longrightarrow> rankActivities f = rankActivities g"
  by (simp add: rankActivities_def)

theorem rankActivities_window_only_witness:
  "take 24 (hourly forecastA) = take 24 (hourly forecastB) \<and>
   city forecastA \<noteq> city forecastB \<and> current forecastA \<noteq> current forecastB \<and>
   daily forecastA \<noteq> daily forecastB \<and> timezone forecastA \<noteq> timezone forecastB \<and>
   drop 24 (hourly forecastA) \<noteq> drop 24 (hourly forecastB) \<and>
   rankActivities forecastA = rankActivities forecastB"
proof -
  have w: "take 24 (hourly forecastA) = take 24 (hourly forecastB)"
    by (simp add: forecastA_def forecastB_def)
  have d: "city forecastA \<noteq> city forecastB \<and> current forecastA \<noteq> current forecastB \<and>
           daily forecastA \<noteq> daily forecastB \<and> timezone forecastA \<noteq> timezone forecastB \<and>
           drop 24 (hourly forecastA) \<noteq> drop 24 (hourly forecastB)"
    by (simp add: forecastA_def forecastB_def capeTown_def innsbruck_def hourOf_def)
  from w d rankActivities_window_only [OF w] show ?thesis
    by simp
qed

section \<open>Normalization\<close>

text \<open>A callback that never raises turns \<open>mapFrom\<close> into a map over the indices.\<close>

lemma mapFrom_Inr:
  assumes "\<And>x i. f x i = Inr (g x i)"
  shows "mapFrom f xs i = Inr (map (\<lambda>j. g (xs ! j) (i + j)) [0..<length xs])"
proof (induction xs arbitrary: i)
  case Nil
  then show ?case by simp
next
  case (Cons x xs)
  have m: "map (\<lambda>j. g ((x # xs) ! j) (i + j)) [0..<length (x # xs)]
           = g x i # map (\<lambda>j. g (xs ! j) (Suc i + j)) [0..<length xs]"
    by (simp add: map_upt_Suc del: upt_Suc)
  have "mapFrom f (x # xs) i
        = Inr (g x i # map (\<lambda>j. g (xs ! j) (Suc i + j)) [0..<length xs])"
    using assms[of x i] by (simp add: Cons.IH andThen_Inr)
  then show ?case
    by (simp only: m)
qed

lemma array_map_Some:
  assumes "\<And>x i. f x i = Inr (g x i)"
  shows "array_map f (Some xs) = Inr (map (\<lambda>j. g (xs ! j) j) [0..<length xs])"
  by (simp add: array_map_def mapFrom_Inr[of f g, OF assms])

lemma array_map_Cons_Inl: "f x 0 = Inl e \<Longrightarrow> array_map f (Some (x # xs)) = Inl e"
  by (simp add: array_map_def andThen_Inl)

lemma index_optIndex: "arr \<noteq> None \<Longrightarrow> index arr i = Inr (optIndex arr i)"
  by (cases arr) simp_all

lemma index_cases: "index arr i = Inl TypeError \<or> (\<exists>v. index arr i = Inr v)"
  by (cases arr) simp_all

text \<open>The two callbacks: all indexed arrays present, or the first missing one raises.\<close>

lemma hourlyAt_Inr:
  assumes "hr_temperature_2m hr \<noteq> None" and "hr_windspeed_10m hr \<noteq> None"
    and "hr_precipitation hr \<noteq> None" and "hr_weathercode hr \<noteq> None"
  shows "hourlyAt hr t i =
         Inr \<lparr> time = t, temperature2m = optIndex (hr_temperature_2m hr) i,
               windspeed10m = optIndex (hr_windspeed_10m hr) i,
               precipitation = optIndex (hr_precipitation hr) i,
               weathercode = optIndex (hr_weathercode hr) i,
               snowDepth = optIndex (hr_snow_depth hr) i \<rparr>"
  using assms by (simp add: hourlyAt_def index_optIndex andThen_Inr)

lemma hourlyAt_Inl:
  assumes "hr_temperature_2m hr = None \<or> hr_windspeed_10m hr = None \<or>
           hr_precipitation hr = None \<or> hr_weathercode hr = None"
  shows "hourlyAt hr t i = Inl TypeError"
  using assms index_cases[of "hr_temperature_2m hr" i] index_cases[of "hr_windspeed_10m hr" i]
    index_cases[of "hr_precipitation hr" i] index_cases[of "hr_weathercode hr" i]
  unfolding hourlyAt_def
  by (auto simp: andThen_Inl andThen_Inr)

lemma dailyAt_Inr:
  assumes "dy_temperature_2m_max dy \<noteq> None" and "dy_temperature_2m_min dy \<noteq> None"
    and "dy_precipitation_sum dy \<noteq> None" and "dy_windspeed_10m_max dy \<noteq> None"
    and "dy_weathercode dy \<noteq> None"
  shows "dailyAt dy d i =
         Inr \<lparr> date = d, temperatureMax = optIndex (dy_temperature_2m_max dy) i,
               temperatureMin = optIndex (dy_temperature_2m_min dy) i,
               precipitationSum = optIndex (dy_precipitation_sum dy) i,
               windspeedMax = optIndex (dy_windspeed_10m_max dy) i,
               daily_weathercode = optIndex (dy_weathercode dy) i \<rparr>"
  using assms by (simp add: dailyAt_def index_optIndex andThen_Inr)

lemma dailyAt_Inl:
  assumes "dy_temperature_2m_max dy = None \<or> dy_temperature_2m_min dy = None \<or>
           dy_precipitation_sum dy = None \<or> dy_windspeed_10m_max dy = None \<or>
           dy_weathercode dy = None"
  shows "dailyAt dy d i = Inl TypeError"
  using assms index_cases[of "dy_temperature_2m_max dy" i]
    index_cases[of "dy_temperature_2m_min dy" i] index_cases[of "dy_precipitation_sum dy" i]
    index_cases[of "dy_windspeed_10m_max dy" i] index_cases[of "dy_weathercode dy" i]
  unfolding dailyAt_def
  by (auto simp: andThen_Inl andThen_Inr)

text \<open>The two maps.\<close>

lemma hourly_map_returns:
  assumes "\<not> hourlyIncomplete hr"
  shows "array_map (hourlyAt hr) (hr_time hr) =
         Inr (map (\<lambda>i. \<lparr> time = the (hr_time hr) ! i,
                          temperature2m = optIndex (hr_temperature_2m hr) i,
                          windspeed10m = optIndex (hr_windspeed_10m hr) i,
                          precipitation = optIndex (hr_precipitation hr) i,
                          weathercode = optIndex (hr_weathercode hr) i,
                          snowDepth = optIndex (hr_snow_depth hr) i \<rparr>)
                  [0..<length (the (hr_time hr))])"
proof (cases "hr_time hr")
  case None
  with assms show ?thesis
    by (simp add: hourlyIncomplete_def)
next
  case (Some ts)
  show ?thesis
  proof (cases ts)
    case Nil
    with Some show ?thesis
      by (simp add: array_map_def)
  next
    case (Cons t ts')
    with Some assms have p: "hr_temperature_2m hr \<noteq> None" "hr_windspeed_10m hr \<noteq> None"
      "hr_precipitation hr \<noteq> None" "hr_weathercode hr \<noteq> None"
      by (simp_all add: hourlyIncomplete_def)
    show ?thesis
      unfolding Some using array_map_Some [of "hourlyAt hr" _ ts, OF hourlyAt_Inr [OF p]]
      by simp
  qed
qed

lemma hourly_map_raises:
  assumes "hourlyIncomplete hr"
  shows "array_map (hourlyAt hr) (hr_time hr) = Inl TypeError"
proof (cases "hr_time hr")
  case None
  then show ?thesis
    by (simp add: array_map_def)
next
  case (Some ts)
  show ?thesis
  proof (cases ts)
    case Nil
    with Some assms show ?thesis
      by (simp add: hourlyIncomplete_def)
  next
    case (Cons t ts')
    with Some assms have "hourlyAt hr t 0 = Inl TypeError"
      by (intro hourlyAt_Inl) (simp add: hourlyIncomplete_def)
    with Some Cons show ?thesis
      by (simp add: array_map_Cons_Inl)
  qed
qed

lemma daily_map_returns:
  assumes "\<not> dailyIncomplete dy"
  shows "array_map (dailyAt dy) (dy_time dy) =
         Inr (map (\<lambda>i. \<lparr> date = the (dy_time dy) ! i,
                          temperatureMax = optIndex (dy_temperature_2m_max dy) i,
                          temperatureMin = optIndex (dy_temperature_2m_min dy) i,
                          precipitationSum = optIndex (dy_precipitation_sum dy) i,
                          windspeedMax = optIndex (dy_windspeed_10m_max dy) i,
                          daily_weathercode = optIndex (dy_weathercode dy) i \<rparr>)
                  [0..<length (the (dy_time dy))])"
proof (cases "dy_time dy")
  case None
  with assms show ?thesis
    by (simp add: dailyIncomplete_def)
next
  case (Some ds)
  show ?thesis
  proof (cases ds)
    case Nil
    with Some show ?thesis
      by (simp add: array_map_def)
  next
    case (Cons d ds')
    with Some assms have p: "dy_temperature_2m_max dy \<noteq> None"
      "dy_temperature_2m_min dy \<noteq> None" "dy_precipitation_sum dy \<noteq> None"
      "dy_windspeed_10m_max dy \<noteq> None" "dy_weathercode dy \<noteq> None"
      by (simp_all add: dailyIncomplete_def)
    show ?thesis
      unfolding Some using array_map_Some [of "dailyAt dy" _ ds, OF dailyAt_Inr [OF p]]
      by simp
  qed
qed

lemma daily_map_raises:
  assumes "dailyIncomplete dy"
  shows "array_map (dailyAt dy) (dy_time dy) = Inl TypeError"
proof (cases "dy_time dy")
  case None
  then show ?thesis
    by (simp add: array_map_def)
next
  case (Some ds)
  show ?thesis
  proof (cases ds)
    case Nil
    with Some assms show ?thesis
      by (simp add: dailyIncomplete_def)
  next
    case (Cons d ds')
    with Some assms have "dailyAt dy d 0 = Inl TypeError"
      by (intro dailyAt_Inl) (simp add: dailyIncomplete_def)
    with Some Cons show ?thesis
      by (simp add: array_map_Cons_Inl)
  qed
qed

text \<open>The normalizer returns exactly when it reads no property of \<^verbatim>\<open>undefined\<close>.\<close>

lemma mapToForecast_returns:
  assumes "\<not> readsUndefined raw"
  shows "mapToForecast c raw = Inr
     \<lparr> city = c,
       current = \<lparr> time = cur_time (the (raw_current raw)),
                   temperature2m = cur_temperature_2m (the (raw_current raw)),
                   windspeed10m = cur_windspeed_10m (the (raw_current raw)),
                   precipitation = cur_precipitation (the (raw_current raw)),
                   weathercode = cur_weathercode (the (raw_current raw)),
                   snowDepth = Undefined \<rparr>,
       hourly = map (\<lambda>i. \<lparr> time = the (hr_time (the (raw_hourly raw))) ! i,
                            temperature2m = optIndex (hr_temperature_2m (the (raw_hourly raw))) i,
                            windspeed10m = optIndex (hr_windspeed_10m (the (raw_hourly raw))) i,
                            precipitation = optIndex (hr_precipitation (the (raw_hourly raw))) i,
                            weathercode = optIndex (hr_weathercode (the (raw_hourly raw))) i,
                            snowDepth = optIndex (hr_snow_depth (the (raw_hourly raw))) i \<rparr>)
                    [0..<length (the (hr_time (the (raw_hourly raw))))],
       daily = map (\<lambda>i. \<lparr> date = the (dy_time (the (raw_daily raw))) ! i,
                           temperatureMax =
                             optIndex (dy_temperature_2m_max (the (raw_daily raw))) i,
                           temperatureMin =
                             optIndex (dy_temperature_2m_min (the (raw_daily raw))) i,
                           precipitationSum =
                             optIndex (dy_precipitation_sum (the (raw_daily raw))) i,
                           windspeedMax =
                             optIndex (dy_windspeed_10m_max (the (raw_daily raw))) i,
                           daily_weathercode =
                             optIndex (dy_weathercode (the (raw_daily raw))) i \<rparr>)
                   [0..<length (the (dy_time (the (raw_daily raw))))],
       timezone = raw_timezone raw \<rparr>"
proof -
  from assms obtain cur hr dy where o: "raw_current raw = Some cur" "raw_hourly raw = Some hr"
    "raw_daily raw = Some dy" and h: "\<not> hourlyIncomplete hr" and d: "\<not> dailyIncomplete dy"
    by (auto simp: readsUndefined_def split: option.splits)
  show ?thesis
    unfolding mapToForecast_def Let_def o
    by (simp add: andThen_Inr hourly_map_returns [OF h] daily_map_returns [OF d])
qed

lemma mapToForecast_raises:
  assumes "readsUndefined raw"
  shows "mapToForecast c raw = Inl TypeError"
proof (cases "raw_current raw")
  case None
  then show ?thesis
    by (simp add: mapToForecast_def andThen_Inl)
next
  case cur: (Some cur)
  show ?thesis
  proof (cases "raw_hourly raw")
    case None
    with cur show ?thesis
      by (simp add: mapToForecast_def Let_def andThen_Inl andThen_Inr)
  next
    case hr: (Some hr)
    show ?thesis
    proof (cases "hourlyIncomplete hr")
      case True
      with cur hr show ?thesis
        by (simp add: mapToForecast_def Let_def andThen_Inl andThen_Inr hourly_map_raises)
    next
      case h: False
      show ?thesis
      proof (cases "raw_daily raw")
        case None
        with cur hr h show ?thesis
          by (simp add: mapToForecast_def Let_def andThen_Inl andThen_Inr hourly_map_returns)
      next
        case dy: (Some dy)
        with assms cur hr h have "dailyIncomplete dy"
          by (simp add: readsUndefined_def)
        with cur hr h dy show ?thesis
          by (simp add: mapToForecast_def Let_def andThen_Inl andThen_Inr hourly_map_returns
              daily_map_raises)
      qed
    qed
  qed
qed

lemma mismatchedPayload_complete: "\<not> readsUndefined mismatchedPayload"
  by (simp add: readsUndefined_def hourlyIncomplete_def dailyIncomplete_def
      mismatchedPayload_def)

text \<open>
  C1, as stated, fails: for the payload with two hourly time stamps and one hourly
  temperature the normalizer does not fail at all. It returns a forecast whose second
  hourly record has an undefined temperature. For the payload without its \<^verbatim>\<open>current\<close>
  object it fails, with a \<^verbatim>\<open>TypeError\<close>.
\<close>

theorem mapToForecast_mismatch_counterexample:
  "mapToForecast capeTown mismatchedPayload \<noteq> Inl DataShapeError \<and>
   \<not> isl (mapToForecast capeTown mismatchedPayload) \<and>
   map temperature2m (hourly (projr (mapToForecast capeTown mismatchedPayload)))
     = [Number (Fin (221 / 10)), Undefined] \<and>
   mapToForecast capeTown noCurrentPayload = Inl TypeError"
proof -
  have "readsUndefined noCurrentPayload"
    by (simp add: readsUndefined_def noCurrentPayload_def)
  then have "mapToForecast capeTown noCurrentPayload = Inl TypeError"
    by (rule mapToForecast_raises)
  moreover have "\<not> isl (mapToForecast capeTown mismatchedPayload) \<and>
     map temperature2m (hourly (projr (mapToForecast capeTown mismatchedPayload)))
       = [Number (Fin (221 / 10)), Undefined]"
    by (simp add: mapToForecast_returns [OF mismatchedPayload_complete])
       (simp add: mismatchedPayload_def)
  ultimately show ?thesis
    by auto
qed

text \<open>
  C1, amended. The normalizer never signals \<open>DataShapeError\<close>. It fails exactly when it
  reads a property of \<^verbatim>\<open>undefined\<close> (the \<^verbatim>\<open>current\<close>, \<^verbatim>\<open>hourly\<close> or \<^verbatim>\<open>daily\<close> object is
  missing, a time array is missing, or a required array is missing next to a non-empty
  time array), and then with the language's \<^verbatim>\<open>TypeError\<close>. On every other payload it
  succeeds, whatever the lengths of the arrays are: the result has one hourly record per
  entry of the hourly time array and one daily record per entry of the daily time
  array; the record at index \<open>i\<close> takes each field from index \<open>i\<close> of the field's array,
  and the field is undefined when that array is too short (or, for the snow depth,
  absent). Entries of a field's array past the length of the time array are not read.
\<close>

theorem mapToForecast_no_validation:
  "mapToForecast c raw \<noteq> Inl DataShapeError \<and>
   (readsUndefined raw \<longrightarrow> mapToForecast c raw = Inl TypeError) \<and>
   (\<not> readsUndefined raw \<longrightarrow>
      mapToForecast c raw = Inr
        \<lparr> city = c,
          current = \<lparr> time = cur_time (the (raw_current raw)),
                      temperature2m = cur_temperature_2m (the (raw_current raw)),
                      windspeed10m = cur_windspeed_10m (the (raw_current raw)),
                      precipitation = cur_precipitation (the (raw_current raw)),
                      weathercode = cur_weathercode (the (raw_current raw)),
                      snowDepth = Undefined \<rparr>,
          hourly =
            map (\<lambda>i. \<lparr> time = the (hr_time (the (raw_hourly raw))) ! i,
                        temperature2m = optIndex (hr_temperature_2m (the (raw_hourly raw))) i,
                        windspeed10m = optIndex (hr_windspeed_10m (the (raw_hourly raw))) i,
                        precipitation = optIndex (hr_precipitation (the (raw_hourly raw))) i,
                        weathercode = optIndex (hr_weathercode (the (raw_hourly raw))) i,
                        snowDepth = optIndex (hr_snow_depth (the (raw_hourly raw))) i \<rparr>)
                [0..<length (the (hr_time (the (raw_hourly raw))))],
          daily =
            map (\<lambda>i. \<lparr> date = the (dy_time (the (raw_daily raw))) ! i,
                        temperatureMax =
                          optIndex (dy_temperature_2m_max (the (raw_daily raw))) i,
                        temperatureMin =
                          optIndex (dy_temperature_2m_min (the (raw_daily raw))) i,
                        precipitationSum =
                          optIndex (dy_precipitation_sum (the (raw_daily raw))) i,
                        windspeedMax =
                          optIndex (dy_windspeed_10m_max (the (raw_daily raw))) i,
                        daily_weathercode =
                          optIndex (dy_weathercode (the (raw_daily raw))) i \<rparr>)
                [0..<length (the (dy_time (the (raw_daily raw))))],
          timezone = raw_timezone raw \<rparr>)"
proof (cases "readsUndefined raw")
  case True
  then show ?thesis
    using mapToForecast_raises [of raw c] by simp
next
  case False
  then show ?thesis
    using mapToForecast_returns [of raw c] by simp
qed

theorem mapToForecast_no_validation_witness:
  "\<not> readsUndefined mismatchedPayload \<and>
   mapToForecast capeTown mismatchedPayload = Inr
     \<lparr> city = capeTown,
       current = \<lparr> time = ''2026-02-11T14:00'', temperature2m = Number (Fin (245 / 10)),
                   windspeed10m = Number (Fin (182 / 10)), precipitation = Number (Fin 0),
                   weathercode = Number (Fin 1), snowDepth = Undefined \<rparr>,
       hourly = [\<lparr> time = ''2026-02-11T00:00'', temperature2m = Number (Fin (221 / 10)),
                   windspeed10m = Number (Fin 15), precipitation = Number (Fin 0),
                   weathercode = Number (Fin 1), snowDepth = Number (Fin 0) \<rparr>,
                 \<lparr> time = ''2026-02-11T01:00'', temperature2m = Undefined,
                   windspeed10m = Number (Fin (165 / 10)), precipitation = Number (Fin 0),
                   weathercode = Number (Fin 1), snowDepth = Number (Fin 0) \<rparr>],
       daily = [\<lparr> date = ''2026-02-11'', temperatureMax = Number (Fin 26),
                  temperatureMin = Number (Fin 18), precipitationSum = Number (Fin 0),
                  windspeedMax = Number (Fin 22), daily_weathercode = Number (Fin 1) \<rparr>,
                \<lparr> date = ''2026-02-12'', temperatureMax = Number (Fin (255 / 10)),
                  temperatureMin = Number (Fin (175 / 10)),
                  precipitationSum = Number (Fin (12 / 10)),
                  windspeedMax = Number (Fin 28), daily_weathercode = Number (Fin 3) \<rparr>],
       timezone = ''Africa/Johannesburg'' \<rparr> \<and>
   readsUndefined noCurrentPayload \<and>
   mapToForecast capeTown noCurrentPayload = Inl TypeError \<and>
   readsUndefined noTemperaturePayload \<and>
   mapToForecast capeTown noTemperaturePayload = Inl TypeError"
proof -
  have p: "\<not> readsUndefined mismatchedPayload"
    by (simp add: readsUndefined_def hourlyIncomplete_def dailyIncomplete_def
        mismatchedPayload_def)
  have q: "readsUndefined noCurrentPayload"
    by (simp add: readsUndefined_def noCurrentPayload_def)
  have r: "readsUndefined noTemperaturePayload"
    by (simp add: readsUndefined_def hourlyIncomplete_def noTemperaturePayload_def)
  from p mapToForecast_no_validation [of capeTown mismatchedPayload]
  have "mapToForecast capeTown mismatchedPayload = Inr
     \<lparr> city = capeTown,
       current = \<lparr> time = ''2026-02-11T14:00'', temperature2m = Number (Fin (245 / 10)),
                   windspeed10m = Number (Fin (182 / 10)), precipitation = Number (Fin 0),
                   weathercode = Number (Fin 1), snowDepth = Undefined \<rparr>,
       hourly = [\<lparr> time = ''2026-02-11T00:00'', temperature2m = Number (Fin (221 / 10)),
                   windspeed10m = Number (Fin 15), precipitation = Number (Fin 0),
                   weathercode = Number (Fin 1), snowDepth = Number (Fin 0) \<rparr>,
                 \<lparr> time = ''2026-02-11T01:00'', temperature2m = Undefined,
                   windspeed10m = Number (Fin (165 / 10)), precipitation = Number (Fin 0),
                   weathercode = Number (Fin 1), snowDepth = Number (Fin 0) \<rparr>],
       daily = [\<lparr> date = ''2026-02-11'', temperatureMax = Number (Fin 26),
                  temperatureMin = Number (Fin 18), precipitationSum = Number (Fin 0),
                  windspeedMax = Number (Fin 22), daily_weathercode = Number (Fin 1) \<rparr>,
                \<lparr> date = ''2026-02-12'', temperatureMax = Number (Fin (255 / 10)),
                  temperatureMin = Number (Fin (175 / 10)),
                  precipitationSum = Number (Fin (12 / 10)),
                  windspeedMax = Number (Fin 28), daily_weathercode = Number (Fin 3) \<rparr>],
       timezone = ''Africa/Johannesburg'' \<rparr>"
    by (simp add: mismatchedPayload_def)
  moreover from q mapToForecast_no_validation [of capeTown noCurrentPayload]
  have "mapToForecast capeTown noCurrentPayload = Inl TypeError"
    by simp
  moreover from r mapToForecast_no_validation [of capeTown noTemperaturePayload]
  have "mapToForecast capeTown noTemperaturePayload = Inl TypeError"
    by simp
  ultimately show ?thesis
    using p q r by simp
qed

section \<open>Scoring scenarios\<close>

text \<open>
  C5. In \<open>scoreSurfing\<close> the second temperature branch tests only \<open>avgTemp >= 12\<close>, so a
  mean temperature above 32 falls into it. A one-hour window at 40 degrees with wind 5,
  no rain and an overcast code scores 15 + 20 + 20 = 55 and is explained as
  ``cool but manageable''; the same window at 5 degrees scores 0 + 20 + 20 = 40.
\<close>

theorem scoreSurfing_hot_window:
  "score (scoreSurfing [hourOf 40 5 0 99 Undefined]) = 55 \<and>
   score (scoreSurfing [hourOf 5 5 0 99 Undefined]) = 40 \<and>
   reason (scoreSurfing [hourOf 40 5 0 99 Undefined]) =
     [Lit ''cool but manageable temperature ('', ToFixed (Fin 40) 1, Lit ''degC)'', Lit ''; '',
      Lit ''light winds ('', ToFixed (Fin 5) 0, Lit '' km/h) -- flat water likely'', Lit ''; '',
      Lit ''dry conditions'']"
  by (simp add: scoreSurfing_def Let_def average_def hourOf_def surfingClearRatio_def
      clearHours_def)

text \<open>
  C6. The schema documents \<open>snowDepth\<close> in metres, and the normalizer copies the provider's
  value. \<open>scoreSkiing\<close> compares the mean of that field with 30 and 10. With 24 hours at
  -8 degrees, wind 20, precipitation 0.5 and a snow depth of 50 cm stored as 0.5 (metres),
  the snow band adds nothing and the score is 35 + 0 + 15 + 10 = 60; with the same depth
  stored as 50 the score is 100. The same 60 comes out of the normalized provider payload.
\<close>

theorem scoreSkiing_snow_depth_in_metres:
  "score (scoreSkiing (replicate 24 (hourOf (- 8) 20 (1 / 2) 1 (Number (Fin (1 / 2)))))) = 60 \<and>
   suitable (scoreSkiing (replicate 24 (hourOf (- 8) 20 (1 / 2) 1 (Number (Fin (1 / 2)))))) \<and>
   score (scoreSkiing (replicate 24 (hourOf (- 8) 20 (1 / 2) 1 (Number (Fin 50))))) = 100 \<and>
   \<not> isl (mapToForecast innsbruck skiPayload) \<and>
   map snowDepth (hourly (projr (mapToForecast innsbruck skiPayload)))
     = [Number (Fin (1 / 2)), Number (Fin (1 / 2))] \<and>
   score (scoreSkiing (take 24 (hourly (projr (mapToForecast innsbruck skiPayload))))) = 60"
proof -
  have w: "score (scoreSkiing (replicate 24 (hourOf (- 8) 20 (1 / 2) 1 (Number (Fin (1 / 2))))))
             = 60 \<and>
           suitable (scoreSkiing (replicate 24 (hourOf (- 8) 20 (1 / 2) 1 (Number (Fin (1 / 2)))))) \<and>
           score (scoreSkiing (replicate 24 (hourOf (- 8) 20 (1 / 2) 1 (Number (Fin 50))))) = 100"
    by (simp add: scoreSkiing_def Let_def average_replicate hourOf_def)
  have p: "\<not> readsUndefined skiPayload"
    by (simp add: readsUndefined_def hourlyIncomplete_def dailyIncomplete_def skiPayload_def)
  have h: "hourly (projr (mapToForecast innsbruck skiPayload)) =
             [\<lparr> time = ''2026-01-01T00:00'', temperature2m = Number (Fin (- 8)),
                windspeed10m = Number (Fin 20), precipitation = Number (Fin (1 / 2)),
                weathercode = Number (Fin 71), snowDepth = Number (Fin (1 / 2)) \<rparr>,
              \<lparr> time = ''2026-01-01T01:00'', temperature2m = Number (Fin (- 8)),
                windspeed10m = Number (Fin 20), precipitation = Number (Fin (1 / 2)),
                weathercode = Number (Fin 71), snowDepth = Number (Fin (1 / 2)) \<rparr>]"
    by (simp add: mapToForecast_returns [OF p]) (simp add: skiPayload_def)
  have e: "score (scoreSkiing (take 24 (hourly (projr (mapToForecast innsbruck skiPayload)))))
             = 60"
    unfolding h by (simp add: scoreSkiing_def Let_def average_def)
  from w h e show ?thesis
    by (simp add: mapToForecast_returns [OF p])
qed

text \<open>
  C7. On the empty window \<open>rankActivities\<close> returns its four entries and every mean is 0,
  as is the clear ratio of \<open>scoreOutdoorSightseeing\<close>. The clear ratio of \<open>scoreSurfing\<close>
  divides by the unguarded length: it is 0 / 0, which is NaN.
\<close>

theorem surfingClearRatio_empty:
  "surfingClearRatio (take 24 (hourly emptyForecast)) = NaN \<and>
   clearRatio (take 24 (hourly emptyForecast)) = Fin 0 \<and>
   average (map temperature2m (take 24 (hourly emptyForecast))) = Fin 0 \<and>
   average (map windspeed10m (take 24 (hourly emptyForecast))) = Fin 0 \<and>
   average (map precipitation (take 24 (hourly emptyForecast))) = Fin 0 \<and>
   average (map (\<lambda>h. nullish (snowDepth h) (Number (Fin 0)))
              (take 24 (hourly emptyForecast))) = Fin 0 \<and>
   map (\<lambda>a. (type a, score a)) (rankActivities emptyForecast) =
     [(INDOOR_SIGHTSEEING, 50), (SURFING, 40), (SKIING, 35), (OUTDOOR_SIGHTSEEING, 35)]"
  by (simp add: emptyForecast_def surfingClearRatio_def clearRatio_def clearHours_def
      average_Nil rankActivities_def array_sort_def scoreSkiing_def scoreSurfing_def
      scoreIndoorSightseeing_def scoreOutdoorSightseeing_def Let_def)

text \<open>
  C8. For every window whose mean precipitation is 10, mean temperature 12 and mean wind
  15, whatever its weather codes are, indoor sightseeing scores at least 60 and strictly
  more than outdoor sightseeing.
\<close>

theorem indoor_beats_outdoor_in_heavy_rain:
  assumes "average (map precipitation hours) = Fin 10"
    and "average (map temperature2m hours) = Fin 12"
    and "average (map windspeed10m hours) = Fin 15"
  shows "60 \<le> score (scoreIndoorSightseeing hours) \<and>
         score (scoreOutdoorSightseeing hours) < score (scoreIndoorSightseeing hours)"
proof -
  have i: "score (scoreIndoorSightseeing hours) = 80"
    by (simp add: scoreIndoorSightseeing_def Let_def assms)
  have o: "score (scoreOutdoorSightseeing hours) \<le> 45"
    by (simp add: scoreOutdoorSightseeing_def Let_def assms)
  from i o show ?thesis
    by simp
qed

theorem indoor_beats_outdoor_in_heavy_rain_witness:
  "average (map precipitation (replicate 24 (hourOf 12 15 10 1 Undefined))) = Fin 10 \<and>
   average (map temperature2m (replicate 24 (hourOf 12 15 10 1 Undefined))) = Fin 12 \<and>
   average (map windspeed10m (replicate 24 (hourOf 12 15 10 1 Undefined))) = Fin 15 \<and>
   60 \<le> score (scoreIndoorSightseeing (replicate 24 (hourOf 12 15 10 1 Undefined))) \<and>
   score (scoreOutdoorSightseeing (replicate 24 (hourOf 12 15 10 1 Undefined)))
     < score (scoreIndoorSightseeing (replicate 24 (hourOf 12 15 10 1 Undefined)))"
proof -
  have p: "average (map precipitation (replicate 24 (hourOf 12 15 10 1 Undefined))) = Fin 10"
    by (simp add: average_replicate hourOf_def)
  have t: "average (map temperature2m (replicate 24 (hourOf 12 15 10 1 Undefined))) = Fin 12"
    by (simp add: average_replicate hourOf_def)
  have w: "average (map windspeed10m (replicate 24 (hourOf 12 15 10 1 Undefined))) = Fin 15"
    by (simp add: average_replicate hourOf_def)
  from p t w indoor_beats_outdoor_in_heavy_rain [OF p t w] show ?thesis
    by simp
qed

text \<open>
  The penalty of \<open>scoreIndoorSightseeing\<close> and its bonuses exclude one another.
\<close>

lemma indoor_great:
  assumes "js_lt (average (map precipitation hours)) 1"
    and "js_ge (average (map temperature2m hours)) 18"
    and "js_le (average (map temperature2m hours)) 28"
    and "js_lt (average (map windspeed10m hours)) 20"
  shows "\<not> js_ge (average (map precipitation hours)) 5 \<and>
         \<not> js_ge (average (map precipitation hours)) 2 \<and>
         \<not> js_lt (average (map temperature2m hours)) 0 \<and>
         \<not> js_gt (average (map temperature2m hours)) 35 \<and>
         \<not> js_gt (average (map windspeed10m hours)) 60 \<and>
         score (scoreIndoorSightseeing hours) = 35"
proof -
  have p: "\<not> js_ge (average (map precipitation hours)) 5"
    "\<not> js_ge (average (map precipitation hours)) 2"
    using assms(1) by (simp_all add: js_lt_not_ge)
  have t: "\<not> js_lt (average (map temperature2m hours)) 0"
    "\<not> js_gt (average (map temperature2m hours)) 35"
    using assms(2,3) by (simp_all add: js_ge_not_lt js_le_not_gt)
  have w: "\<not> js_gt (average (map windspeed10m hours)) 60"
    using assms(4) by (simp add: js_lt_not_gt)
  have "score (scoreIndoorSightseeing hours) = 35"
    using assms p t w by (simp add: scoreIndoorSightseeing_def Let_def)
  with p t w show ?thesis
    by simp
qed

lemma indoor_not_great:
  assumes "\<not> (js_lt (average (map precipitation hours)) 1 \<and>
              js_ge (average (map temperature2m hours)) 18 \<and>
              js_le (average (map temperature2m hours)) 28 \<and>
              js_lt (average (map windspeed10m hours)) 20)"
  shows "50 \<le> score (scoreIndoorSightseeing hours)"
  unfolding scoreIndoorSightseeing_def Let_def if_not_P[OF assms]
  by simp

text \<open>
  C10. For every window, the empty one included, the indoor sightseeing score is at
  least 35. When the penalty for great outdoor weather applies (precipitation below 1,
  temperature in [18, 28], wind below 20), none of the conditions of the bonuses holds
  and the score is exactly 50 - 15 = 35.
\<close>

theorem scoreIndoorSightseeing_at_least_35:
  "35 \<le> score (scoreIndoorSightseeing hours) \<and>
   (js_lt (average (map precipitation hours)) 1 \<and>
    js_ge (average (map temperature2m hours)) 18 \<and>
    js_le (average (map temperature2m hours)) 28 \<and>
    js_lt (average (map windspeed10m hours)) 20 \<longrightarrow>
      \<not> js_ge (average (map precipitation hours)) 5 \<and>
      \<not> js_ge (average (map precipitation hours)) 2 \<and>
      \<not> js_lt (average (map temperature2m hours)) 0 \<and>
      \<not> js_gt (average (map temperature2m hours)) 35 \<and>
      \<not> js_gt (average (map windspeed10m hours)) 60 \<and>
      score (scoreIndoorSightseeing hours) = 35)"
proof (cases "js_lt (average (map precipitation hours)) 1 \<and>
              js_ge (average (map temperature2m hours)) 18 \<and>
              js_le (average (map temperature2m hours)) 28 \<and>
              js_lt (average (map windspeed10m hours)) 20")
  case True
  then show ?thesis
    using indoor_great [of hours] by simp
next
  case False
  then show ?thesis
    using indoor_not_great [of hours] by simp
qed

theorem scoreIndoorSightseeing_at_least_35_witness:
  "js_lt (average (map precipitation [hourOf 22 10 0 1 Undefined])) 1 \<and>
   js_ge (average (map temperature2m [hourOf 22 10 0 1 Undefined])) 18 \<and>
   js_le (average (map temperature2m [hourOf 22 10 0 1 Undefined])) 28 \<and>
   js_lt (average (map windspeed10m [hourOf 22 10 0 1 Undefined])) 20 \<and>
   score (scoreIndoorSightseeing [hourOf 22 10 0 1 Undefined]) = 35 \<and>
   35 \<le> score (scoreIndoorSightseeing [])"
proof -
  have g: "js_lt (average (map precipitation [hourOf 22 10 0 1 Undefined])) 1 \<and>
           js_ge (average (map temperature2m [hourOf 22 10 0 1 Undefined])) 18 \<and>
           js_le (average (map temperature2m [hourOf 22 10 0 1 Undefined])) 28 \<and>
           js_lt (average (map windspeed10m [hourOf 22 10 0 1 Undefined])) 20"
    by (simp add: average_def hourOf_def)
  from g scoreIndoorSightseeing_at_least_35 [of "[hourOf 22 10 0 1 Undefined]"]
    scoreIndoorSightseeing_at_least_35 [of "[]"]
  show ?thesis
    by simp
qed

end
